theory Spec2Isabelle
  imports Main "HOL-Library.Sublist"
begin

section \<open>The server plugin of vite-virtual-entry-server-plugin\<close>

text \<open>
  A shallow embedding of \<^verbatim>\<open>src/server.plugin.ts\<close>. The plugin has one hook,
  \<^verbatim>\<open>configureServer\<close>, which registers one middleware per exposed file and one per
  build entry. What the middlewares do to the response, to the pass-to-next continuation,
  to the host (module-graph lookups, transform requests) and to the entry cache is made
  explicit: a middleware returns the list of its effects, in program order, and the entry
  cache it leaves behind.

  The host (the dev server, the \<^verbatim>\<open>glob\<close> library, \<^verbatim>\<open>import.meta.dirname\<close>) is a
  parameter. Each of its asynchronous calls may resolve, to a value or to null/undefined,
  or reject. A middleware is an \<^verbatim>\<open>async\<close> function with one \<^verbatim>\<open>await\<close>: it runs up to the
  \<^verbatim>\<open>await\<close> when the request arrives and continues when the awaited promise has settled,
  and other requests may arrive and continue in between. \<^verbatim>\<open>console.debug\<close> output is left
  out.
\<close>

subsection \<open>Strings\<close>

definition startsWith :: "string \<Rightarrow> string \<Rightarrow> bool" where
  "startsWith s p = prefix p s"

definition endsWith :: "string \<Rightarrow> string \<Rightarrow> bool" where
  "endsWith s p = suffix p s"

text \<open>
  \<^verbatim>\<open>s.replace(pat, rep)\<close> with a string pattern: the first occurrence of \<open>pat\<close> is
  replaced, and a string without \<open>pat\<close> is returned as it is. The source only ever passes
  the empty replacement, so the \<^verbatim>\<open>$\<close> patterns of the replacement play no role.
\<close>

fun replace :: "string \<Rightarrow> string \<Rightarrow> string \<Rightarrow> string" where
  "replace [] pat rep = (if pat = [] then rep else [])"
| "replace (c # s) pat rep =
     (if prefix pat (c # s) then rep @ drop (length pat) (c # s)
      else c # replace s pat rep)"

text \<open>\<^verbatim>\<open>xs.join(sep)\<close>\<close>

fun join :: "string \<Rightarrow> string list \<Rightarrow> string" where
  "join sep [] = []"
| "join sep [x] = x"
| "join sep (x # y # ys) = x @ sep @ join sep (y # ys)"

subsection \<open>The host's data\<close>

record ServerPluginOptions =
  exposedFolders :: "string list option"

record TransformResult =
  code :: string

text \<open>An imported module, as far as the plugin looks at it: \<^verbatim>\<open>m.file\<close> may be null.\<close>

record ImportedModule =
  file' :: "string option"

record ModuleNode =
  transformResult :: "TransformResult option"
  importedModules :: "ImportedModule list"

text \<open>The promise returned by \<^verbatim>\<open>server.warmupRequest\<close>, settled.\<close>

datatype Promise = Resolved | Rejected string

text \<open>
  What \<^verbatim>\<open>await\<close> does with a promise of a value: it gives the value, or throws the reason
  of the rejection.
\<close>

datatype 'a Awaited = Fulfilled 'a | Thrown string

text \<open>
  The dev server: \<^verbatim>\<open>config.build.rollupOptions.input\<close> (a record of entry name to input,
  as the list of its own properties in the order in which JavaScript enumerates them:
  every name occurs once), \<^verbatim>\<open>warmupRequest\<close>, \<^verbatim>\<open>moduleGraph.getModuleByUrl\<close> and
  \<^verbatim>\<open>transformRequest\<close>.
\<close>

record ViteDevServer =
  input :: "(string \<times> string) list"
  warmupRequest :: "string \<Rightarrow> Promise"
  getModuleByUrl :: "string \<Rightarrow> ModuleNode option Awaited"
  transformRequest :: "string \<Rightarrow> TransformResult option Awaited"

record Request =
  originalUrl :: "string option"

text \<open>
  What a middleware does, in program order. \<open>Throw\<close> is the end of a middleware whose
  \<^verbatim>\<open>await\<close> has thrown: nothing catches the error, and the function does nothing more.
\<close>

datatype Event =
    Next
  | SetHeader string string
  | End string
  | GetModuleByUrl string
  | TransformRequest string
  | Throw string

text \<open>
  The two closures that \<^verbatim>\<open>configureServer\<close> passes to \<^verbatim>\<open>middlewares.use\<close>, with the
  variables they capture: \<open>folder\<close> and \<open>file\<close>, or \<open>name\<close> and \<open>input\<close>.
\<close>

datatype Middleware =
    ExposedFileMiddleware string string
  | EntryMiddleware string string

text \<open>
  A middleware suspended at its \<^verbatim>\<open>await\<close>: what the awaited promise settles to, and for
  an entry the \<open>name\<close> and \<open>input\<close> that the rest of the function uses. The host that
  is given with a request says what the promise of that request settles to; since it is
  any host, every outcome is covered.
\<close>

datatype Suspended =
    AwaitTransformRequest "TransformResult option Awaited"
  | AwaitGetModuleByUrl string string "ModuleNode option Awaited"

subsection \<open>The middlewares\<close>

text \<open>\<^verbatim>\<open>req.originalUrl?.startsWith(route)\<close>: an undefined URL does not match.\<close>

definition urlMatches :: "Request \<Rightarrow> string \<Rightarrow> bool" where
  "urlMatches req route =
     (case originalUrl req of None \<Rightarrow> False | Some url \<Rightarrow> startsWith url route)"

text \<open>\<^verbatim>\<open>transformed?.code ?? ''\<close>\<close>

definition codeOrEmpty :: "TransformResult option \<Rightarrow> string" where
  "codeOrEmpty transformed = (case transformed of None \<Rightarrow> [] | Some t \<Rightarrow> code t)"

text \<open>The truthiness of \<^verbatim>\<open>transformed?.code\<close>: there is code and it is not empty.\<close>

definition hasCode :: "TransformResult option \<Rightarrow> bool" where
  "hasCode transformed = (case transformed of None \<Rightarrow> False | Some t \<Rightarrow> code t \<noteq> [])"

text \<open>
  The middleware of an exposed file, up to its \<^verbatim>\<open>await\<close>: it passes a request that does
  not match on, and otherwise asks for the transform and waits.
\<close>

definition exposedFileMiddleware ::
  "string \<Rightarrow> string \<Rightarrow> ViteDevServer \<Rightarrow> Request \<Rightarrow> Event list \<times> Suspended option" where
  "exposedFileMiddleware folder file server req =
     (if \<not> urlMatches req (''/'' @ file) then ([Next], None)
      else
        ([TransformRequest (folder @ ''/'' @ file)],
         Some (AwaitTransformRequest (transformRequest server (folder @ ''/'' @ file)))))"

text \<open>
  The files imported by the module: those with a file path, in the order of the set
  \<^verbatim>\<open>importedModules\<close>, each with the first occurrence of \<^verbatim>\<open>import.meta.dirname\<close> removed.
\<close>

definition importedFiles :: "string \<Rightarrow> ModuleNode option \<Rightarrow> string list" where
  "importedFiles dirname module =
     map (\<lambda>f. replace f dirname [])
       (List.map_filter file' (case module of None \<Rightarrow> [] | Some m \<Rightarrow> importedModules m))"

definition isCssOnly :: "string list \<Rightarrow> bool" where
  "isCssOnly files = (0 < length files \<and> list_all (\<lambda>f. endsWith f ''.css'') files)"

text \<open>
  The template \<^verbatim>\<open>@import '${file}';\<close> (the quote character is written \<open>CHR 0x27\<close>), and
  the lines joined by a newline.
\<close>

definition importLine :: "string \<Rightarrow> string" where
  "importLine f = ''@import '' @ [CHR 0x27] @ f @ [CHR 0x27] @ '';''"

definition cssBundle :: "string list \<Rightarrow> string" where
  "cssBundle files = join ''\<newline>'' (map importLine files)"

text \<open>\<^verbatim>\<open>module?.transformResult\<close>\<close>

definition transformResultOf :: "ModuleNode option \<Rightarrow> TransformResult option" where
  "transformResultOf module = (case module of None \<Rightarrow> None | Some m \<Rightarrow> transformResult m)"

text \<open>
  The middleware of an entry, up to its \<^verbatim>\<open>await\<close>: it passes a request that does not
  match on, answers from the entry cache if the name is there, and otherwise asks the
  module graph and waits.
\<close>

definition entryMiddleware ::
  "string \<Rightarrow> string \<Rightarrow> ViteDevServer \<Rightarrow> (string \<rightharpoonup> string) \<Rightarrow> Request
     \<Rightarrow> Event list \<times> Suspended option" where
  "entryMiddleware name inp server entryCache req =
     (if \<not> urlMatches req (''/'' @ name) then ([Next], None)
      else
        case entryCache name of
          Some contents \<Rightarrow>
            ([SetHeader ''Content-Type''
                (if startsWith contents ''// type: cssBundle'' then ''text/css''
                 else ''application/javascript''),
              End contents],
             None)
        | None \<Rightarrow>
            ([GetModuleByUrl inp], Some (AwaitGetModuleByUrl name inp (getModuleByUrl server inp))))"

text \<open>
  The rest of a suspended middleware, run on the entry cache as it is by then. If the
  \<^verbatim>\<open>await\<close> throws, the middleware ends there.
\<close>

fun resume ::
  "string \<Rightarrow> Suspended \<Rightarrow> (string \<rightharpoonup> string) \<Rightarrow> Event list \<times> (string \<rightharpoonup> string)" where
  "resume dirname (AwaitTransformRequest (Thrown err)) entryCache = ([Throw err], entryCache)"
| "resume dirname (AwaitTransformRequest (Fulfilled transformed)) entryCache =
     ([SetHeader ''Content-Type'' ''application/javascript'', End (codeOrEmpty transformed)],
      entryCache)"
| "resume dirname (AwaitGetModuleByUrl name inp (Thrown err)) entryCache =
     ([Throw err], entryCache)"
| "resume dirname (AwaitGetModuleByUrl name inp (Fulfilled module)) entryCache =
     (let transformed = transformResultOf module
      in
        if startsWith inp ''virtual:'' \<and> isCssOnly (importedFiles dirname module) then
          ([SetHeader ''Content-Type'' ''text/css'',
            End (''// type: cssBundle\<newline>\<newline>'' @ cssBundle (importedFiles dirname module))],
           entryCache(name \<mapsto> cssBundle (importedFiles dirname module)))
        else
          ([SetHeader ''Content-Type'' ''application/javascript'',
            End (codeOrEmpty transformed)],
           if hasCode transformed then entryCache(name \<mapsto> codeOrEmpty transformed)
           else entryCache))"

text \<open>Calling a registered middleware: it runs up to its \<^verbatim>\<open>await\<close>, if it gets there.\<close>

fun call ::
  "Middleware \<Rightarrow> ViteDevServer \<Rightarrow> (string \<rightharpoonup> string) \<Rightarrow> Request
     \<Rightarrow> Event list \<times> Suspended option" where
  "call (ExposedFileMiddleware folder file) server entryCache req =
     exposedFileMiddleware folder file server req"
| "call (EntryMiddleware name inp) server entryCache req =
     entryMiddleware name inp server entryCache req"

text \<open>
  A request that is handled from its arrival to the end of the middleware with no other
  request in between, and a sequence of such requests.
\<close>

definition handle ::
  "string \<Rightarrow> Middleware \<Rightarrow> ViteDevServer \<Rightarrow> (string \<rightharpoonup> string) \<Rightarrow> Request
     \<Rightarrow> Event list \<times> (string \<rightharpoonup> string)" where
  "handle dirname mw server entryCache req =
     (case call mw server entryCache req of
        (events, None) \<Rightarrow> (events, entryCache)
      | (events, Some suspended) \<Rightarrow>
          (case resume dirname suspended entryCache of
             (rest, entryCache') \<Rightarrow> (events @ rest, entryCache')))"

fun serveAll ::
  "string \<Rightarrow> (string \<rightharpoonup> string) \<Rightarrow> (Middleware \<times> ViteDevServer \<times> Request) list
     \<Rightarrow> Event list list \<times> (string \<rightharpoonup> string)" where
  "serveAll dirname entryCache [] = ([], entryCache)"
| "serveAll dirname entryCache ((mw, server, req) # rest) =
     (let (events, entryCache') = handle dirname mw server entryCache req;
          (more, entryCache'') = serveAll dirname entryCache' rest
      in (events # more, entryCache''))"

text \<open>
  Requests that overlap. The dev server holds the entry cache, the effects of each request
  so far (in the order of arrival) and, for each request, the suspended middleware if
  there is one. A request arrives and its middleware runs up to the \<^verbatim>\<open>await\<close>; later the
  awaited promise of the \<open>i\<close>-th request settles and its middleware runs to the end.
\<close>

record Running =
  cached :: "string \<rightharpoonup> string"
  effects :: "Event list list"
  awaiting :: "Suspended option list"

datatype Action =
    Arrive Middleware ViteDevServer Request
  | Settle nat

fun act :: "string \<Rightarrow> Running \<Rightarrow> Action \<Rightarrow> Running" where
  "act dirname r (Arrive mw server req) =
     (case call mw server (cached r) req of
        (events, suspended) \<Rightarrow>
          r\<lparr>effects := effects r @ [events], awaiting := awaiting r @ [suspended]\<rparr>)"
| "act dirname r (Settle i) =
     (if i < length (awaiting r) then
        (case awaiting r ! i of
           None \<Rightarrow> r
         | Some suspended \<Rightarrow>
             (case resume dirname suspended (cached r) of
                (rest, entryCache') \<Rightarrow>
                  r\<lparr>cached := entryCache',
                    effects := (effects r)[i := effects r ! i @ rest],
                    awaiting := (awaiting r)[i := None]\<rparr>))
      else r)"

definition run :: "string \<Rightarrow> Running \<Rightarrow> Action list \<Rightarrow> Running" where
  "run dirname r actions = foldl (act dirname) r actions"

definition starting :: "(string \<rightharpoonup> string) \<Rightarrow> Running" where
  "starting entryCache = \<lparr>cached = entryCache, effects = [], awaiting = []\<rparr>"

subsection \<open>Registering the middlewares\<close>

text \<open>
  \<^verbatim>\<open>record.filter\<close> and \<^verbatim>\<open>record.filterWithIndex\<close> of fp-ts: the predicate of the first
  is given the value, that of the second the key and then the value.
\<close>

definition record_filter ::
  "(string \<Rightarrow> bool) \<Rightarrow> (string \<times> string) list \<Rightarrow> (string \<times> string) list" where
  "record_filter p r = filter (\<lambda>(k, a). p a) r"

definition record_filterWithIndex ::
  "(string \<Rightarrow> string \<Rightarrow> bool) \<Rightarrow> (string \<times> string) list \<Rightarrow> (string \<times> string) list" where
  "record_filterWithIndex p r = filter (\<lambda>(k, a). p k a) r"

definition nonVirtualInputs :: "(string \<times> string) list \<Rightarrow> (string \<times> string) list" where
  "nonVirtualInputs inputs =
     record_filterWithIndex (\<lambda>_ file. \<not> endsWith file ''index.html'')
       (record_filter (\<lambda>entry. \<not> startsWith entry ''virtual:'') inputs)"

definition virtualInputs :: "(string \<times> string) list \<Rightarrow> (string \<times> string) list" where
  "virtualInputs inputs = record_filter (\<lambda>entry. startsWith entry ''virtual:'') inputs"

text \<open>
  What \<^verbatim>\<open>configureServer\<close> has done when it returns: the calls of \<^verbatim>\<open>middlewares.use\<close>
  in order, the calls of \<^verbatim>\<open>warmupRequest\<close>, what the \<^verbatim>\<open>catch\<close> handlers print with
  \<^verbatim>\<open>console.error\<close> (entry name and error), and the rejections that no handler took.
\<close>

record Configured =
  routes :: "(string \<times> Middleware) list"
  warmedUp :: "string list"
  errors :: "(string \<times> string) list"
  unhandled :: "string list"

text \<open>
  \<^verbatim>\<open>promise.catch(onRejected)\<close> with a handler that returns normally: the new promise
  is resolved, and the handler has run if the first one was rejected.
\<close>

fun catch :: "Promise \<Rightarrow> (string \<Rightarrow> 'a list) \<Rightarrow> Promise \<times> 'a list" where
  "catch Resolved onRejected = (Resolved, [])"
| "catch (Rejected err) onRejected = (Resolved, onRejected err)"

text \<open>
  The files of an exposed folder: the result of \<^verbatim>\<open>glob.sync\<close> (a parameter, called with
  \<^verbatim>\<open>nodir\<close>, \<^verbatim>\<open>absolute\<close> and the two ignore patterns), each with the first occurrence of
  the folder and a slash removed.
\<close>

definition exposedFiles :: "(string \<Rightarrow> string list) \<Rightarrow> string \<Rightarrow> string list" where
  "exposedFiles glob_sync folder =
     map (\<lambda>file. replace file (folder @ ''/'') []) (glob_sync (folder @ ''/**/*''))"

fun useFiles :: "string \<Rightarrow> string list \<Rightarrow> Configured \<Rightarrow> Configured" where
  "useFiles folder [] cfg = cfg"
| "useFiles folder (file # files) cfg =
     useFiles folder files
       (cfg\<lparr>routes := routes cfg @ [(''/'' @ file, ExposedFileMiddleware folder file)]\<rparr>)"

fun useFolders :: "(string \<Rightarrow> string list) \<Rightarrow> string list \<Rightarrow> Configured \<Rightarrow> Configured" where
  "useFolders glob_sync [] cfg = cfg"
| "useFolders glob_sync (folder # folders) cfg =
     useFolders glob_sync folders (useFiles folder (exposedFiles glob_sync folder) cfg)"

text \<open>\<^verbatim>\<open>if (options?.exposedFolders)\<close>: an array is truthy, also the empty one.\<close>

definition useExposedFolders ::
  "(string \<Rightarrow> string list) \<Rightarrow> ServerPluginOptions option \<Rightarrow> Configured \<Rightarrow> Configured" where
  "useExposedFolders glob_sync options cfg =
     (case options of
        None \<Rightarrow> cfg
      | Some opts \<Rightarrow>
          (case exposedFolders opts of
             None \<Rightarrow> cfg
           | Some folders \<Rightarrow> useFolders glob_sync folders cfg))"

fun useEntries :: "ViteDevServer \<Rightarrow> (string \<times> string) list \<Rightarrow> Configured \<Rightarrow> Configured" where
  "useEntries server [] cfg = cfg"
| "useEntries server ((name, inp) # rest) cfg =
     (let (settled, logged) = catch (warmupRequest server inp) (\<lambda>err. [(name, err)])
      in useEntries server rest
           (cfg\<lparr>warmedUp := warmedUp cfg @ [inp],
                  errors := errors cfg @ logged,
                  unhandled := unhandled cfg @
                    (case settled of Resolved \<Rightarrow> [] | Rejected err \<Rightarrow> [err]),
                  routes := routes cfg @ [(''/'' @ name, EntryMiddleware name inp)]\<rparr>))"

text \<open>
  The order of the own properties of an object: the keys that are array indices (a
  decimal numeral without a leading zero, at most \<open>2\<^sup>3\<^sup>2 - 2\<close>) in ascending order of
  their value, then the other keys in the order of their creation.
\<close>

definition isDigit :: "char \<Rightarrow> bool" where
  "isDigit c = (48 \<le> (of_char c :: nat) \<and> (of_char c :: nat) \<le> 57)"

definition indexValue :: "string \<Rightarrow> nat" where
  "indexValue s = foldl (\<lambda>n c. 10 * n + (of_char c - 48)) 0 s"

definition isArrayIndex :: "string \<Rightarrow> bool" where
  "isArrayIndex s =
     (s \<noteq> [] \<and> list_all isDigit s \<and> (if hd s = CHR ''0'' then s = ''0'' else True)
      \<and> indexValue s \<le> 4294967294)"

definition ownProperties :: "(string \<times> 'a) list \<Rightarrow> (string \<times> 'a) list" where
  "ownProperties created =
     sort_key (\<lambda>(k, a). indexValue k) (filter (\<lambda>(k, a). isArrayIndex k) created)
     @ filter (\<lambda>(k, a). \<not> isArrayIndex k) created"

text \<open>
  \<^verbatim>\<open>Object.entries({ ...virtualInputs, ...nonVirtualInputs })\<close>: the properties of the
  virtual inputs are created first, then those of the others, and the entries come in the
  order of the own properties of the new object. The two records are parts of one record,
  so no key of the first is overwritten by the second.
\<close>

definition entries :: "(string \<times> string) list \<Rightarrow> (string \<times> string) list" where
  "entries inputs = ownProperties (virtualInputs inputs @ nonVirtualInputs inputs)"

definition configureServer ::
  "(string \<Rightarrow> string list) \<Rightarrow> ServerPluginOptions option \<Rightarrow> ViteDevServer \<Rightarrow> Configured" where
  "configureServer glob_sync options server =
     useEntries server (entries (input server))
       (useExposedFolders glob_sync options
          \<lparr>routes = [], warmedUp = [], errors = [], unhandled = []\<rparr>)"

subsection \<open>Reading a list of effects\<close>

text \<open>
  The bodies sent with \<^verbatim>\<open>res.end\<close>, the headers set and the number of calls of
  \<^verbatim>\<open>next\<close>.
\<close>

fun bodies :: "Event list \<Rightarrow> string list" where
  "bodies [] = []"
| "bodies (End body # es) = body # bodies es"
| "bodies (e # es) = bodies es"

fun headers :: "Event list \<Rightarrow> (string \<times> string) list" where
  "headers [] = []"
| "headers (SetHeader k v # es) = (k, v) # headers es"
| "headers (e # es) = headers es"

fun nextCalls :: "Event list \<Rightarrow> nat" where
  "nextCalls [] = 0"
| "nextCalls (Next # es) = Suc (nextCalls es)"
| "nextCalls (e # es) = nextCalls es"

text \<open>The registrations made for exposed files, and those made for entries.\<close>

fun isExposedFile :: "Middleware \<Rightarrow> bool" where
  "isExposedFile (ExposedFileMiddleware folder file) = True"
| "isExposedFile (EntryMiddleware name inp) = False"

definition exposedFileRoutes :: "Configured \<Rightarrow> (string \<times> Middleware) list" where
  "exposedFileRoutes cfg = filter (\<lambda>(route, mw). isExposedFile mw) (routes cfg)"

definition entryRoutes :: "Configured \<Rightarrow> (string \<times> Middleware) list" where
  "entryRoutes cfg = filter (\<lambda>(route, mw). \<not> isExposedFile mw) (routes cfg)"



text \<open>Whether the \<^verbatim>\<open>await\<close> of a suspended middleware throws.\<close>

fun throwing :: "Suspended option \<Rightarrow> bool" where
  "throwing None = False"
| "throwing (Some (AwaitTransformRequest (Thrown err))) = True"
| "throwing (Some (AwaitTransformRequest (Fulfilled transformed))) = False"
| "throwing (Some (AwaitGetModuleByUrl name inp (Thrown err))) = True"
| "throwing (Some (AwaitGetModuleByUrl name inp (Fulfilled module))) = False"

subsection \<open>Example inputs\<close>

text \<open>
  A dev server with the entry map of the repository's tests and two more entries. The
  module graph knows a module whose code is empty, a virtual module that imports two style
  sheets (and one module without a file), the same with file paths under the root \<^verbatim>\<open>/\<close>,
  a virtual module that imports a style sheet and a script, and one like it whose code
  starts with the marker of a style sheet bundle. The warm-up of \<^verbatim>\<open>src/main.ts\<close> fails.
\<close>

definition exampleModules :: "string \<Rightarrow> ModuleNode option" where
  "exampleModules url =
     (if url = ''src/main.ts'' then
        Some \<lparr>transformResult = Some \<lparr>code = ''X''\<rparr>, importedModules = []\<rparr>
      else if url = ''src/empty.ts'' then
        Some \<lparr>transformResult = Some \<lparr>code = []\<rparr>, importedModules = []\<rparr>
      else if url = ''virtual:css'' then
        Some \<lparr>transformResult = Some \<lparr>code = '':root { --color: red; }''\<rparr>,
              importedModules =
                [\<lparr>file' = Some ''a.css''\<rparr>, \<lparr>file' = None\<rparr>, \<lparr>file' = Some ''b.css''\<rparr>]\<rparr>
      else if url = ''virtual:rooted'' then
        Some \<lparr>transformResult = Some \<lparr>code = '':root { --color: red; }''\<rparr>,
              importedModules =
                [\<lparr>file' = Some ''/a.css''\<rparr>, \<lparr>file' = None\<rparr>, \<lparr>file' = Some ''/b.css''\<rparr>]\<rparr>
      else if url = ''virtual:main'' then
        Some \<lparr>transformResult = Some \<lparr>code = ''Y''\<rparr>,
              importedModules = [\<lparr>file' = Some ''a.css''\<rparr>, \<lparr>file' = Some ''b.js''\<rparr>]\<rparr>
      else if url = ''virtual:marked'' then
        Some \<lparr>transformResult = Some \<lparr>code = ''// type: cssBundle is not what this is''\<rparr>,
              importedModules = [\<lparr>file' = Some ''a.css''\<rparr>, \<lparr>file' = Some ''b.js''\<rparr>]\<rparr>
      else None)"

definition exampleServer :: ViteDevServer where
  "exampleServer =
     \<lparr>input =
        [(''main'', ''src/main.ts''), (''empty'', ''src/empty.ts''),
         (''virtual:main'', ''virtual:main''), (''virtual:css'', ''virtual:css''),
         (''index.html'', ''index.html'')],
      warmupRequest = (\<lambda>url. if url = ''src/main.ts'' then Rejected ''failed'' else Resolved),
      getModuleByUrl = (\<lambda>url. Fulfilled (exampleModules url)),
      transformRequest =
        (\<lambda>url. if url = ''/srv/app/public/a.js'' then Fulfilled (Some \<lparr>code = ''Z''\<rparr>)
               else Fulfilled None)\<rparr>"

text \<open>The same dev server at a time when its module graph and its transform fail.\<close>

definition rejectingServer :: ViteDevServer where
  "rejectingServer =
     exampleServer\<lparr>getModuleByUrl := (\<lambda>url. Thrown ''failed''),
                   transformRequest := (\<lambda>url. Thrown ''failed'')\<rparr>"

text \<open>
  An entry map whose keys and inputs disagree about the HTML document: the key of the
  first entry ends in \<^verbatim>\<open>index.html\<close> and its input does not, the second the other way
  round.
\<close>

definition htmlServer :: ViteDevServer where
  "htmlServer = exampleServer\<lparr>input := [(''index.html'', ''src/main.ts''), (''main'', ''index.html'')]\<rparr>"

text \<open>
  What \<^verbatim>\<open>glob.sync\<close> returns, with \<^verbatim>\<open>absolute: true\<close>, for the folder \<^verbatim>\<open>public\<close> of a
  project in \<^verbatim>\<open>/srv/app\<close> that holds \<^verbatim>\<open>a.js\<close> and \<^verbatim>\<open>sub/b.css\<close>: the same paths
  whether the folder is given as \<^verbatim>\<open>/srv/app/public\<close> or, from the working directory
  \<^verbatim>\<open>/srv/app\<close>, as \<^verbatim>\<open>public\<close>.
\<close>

definition exampleGlob :: "string \<Rightarrow> string list" where
  "exampleGlob pattern =
     (if pattern = ''/srv/app/public/**/*'' \<or> pattern = ''public/**/*''
      then [''/srv/app/public/a.js'', ''/srv/app/public/sub/b.css'']
      else [])"

definition exampleOptions :: "ServerPluginOptions option" where
  "exampleOptions = Some \<lparr>exposedFolders = Some [''public'']\<rparr>"

definition absoluteOptions :: "ServerPluginOptions option" where
  "absoluteOptions = Some \<lparr>exposedFolders = Some [''/srv/app/public'']\<rparr>"

definition exampleRequest :: "string \<Rightarrow> Request" where
  "exampleRequest url = \<lparr>originalUrl = Some url\<rparr>"

section \<open>Lemmas\<close>

subsection \<open>What \<^verbatim>\<open>configureServer\<close> registers\<close>

lemma useFiles_routes:
  "routes (useFiles folder files cfg) =
     routes cfg @ map (\<lambda>file. (''/'' @ file, ExposedFileMiddleware folder file)) files"
  by (induction files arbitrary: cfg) simp_all

lemma useFiles_rest:
  "warmedUp (useFiles folder files cfg) = warmedUp cfg"
  "errors (useFiles folder files cfg) = errors cfg"
  "unhandled (useFiles folder files cfg) = unhandled cfg"
  by (induction files arbitrary: cfg) simp_all

lemma useFolders_routes:
  "routes (useFolders g folders cfg) =
     routes cfg @
     concat (map (\<lambda>folder. map (\<lambda>file. (''/'' @ file, ExposedFileMiddleware folder file))
                               (exposedFiles g folder)) folders)"
  by (induction folders arbitrary: cfg) (simp_all add: useFiles_routes)

lemma useFolders_rest:
  "warmedUp (useFolders g folders cfg) = warmedUp cfg"
  "errors (useFolders g folders cfg) = errors cfg"
  "unhandled (useFolders g folders cfg) = unhandled cfg"
  by (induction folders arbitrary: cfg) (simp_all add: useFiles_rest)

lemma useExposedFolders_rest:
  "warmedUp (useExposedFolders g options cfg) = warmedUp cfg"
  "errors (useExposedFolders g options cfg) = errors cfg"
  "unhandled (useExposedFolders g options cfg) = unhandled cfg"
  by (simp_all add: useExposedFolders_def useFolders_rest split: option.splits)

lemma useExposedFolders_all_exposed:
  "list_all (\<lambda>(route, mw). isExposedFile mw) (routes cfg) \<Longrightarrow>
   list_all (\<lambda>(route, mw). isExposedFile mw) (routes (useExposedFolders g options cfg))"
  by (auto simp: useExposedFolders_def useFolders_routes list_all_iff split: option.splits)

lemma useEntries_routes:
  "routes (useEntries server es cfg) =
     routes cfg @ map (\<lambda>(name, inp). (''/'' @ name, EntryMiddleware name inp)) es"
  by (induction es arbitrary: cfg) (auto split: prod.splits)

lemma useEntries_warmedUp:
  "warmedUp (useEntries server es cfg) = warmedUp cfg @ map snd es"
  by (induction es arbitrary: cfg) (auto split: prod.splits)

lemma catch_settled: "fst (catch p h) = Resolved"
  by (cases p) simp_all

lemma useEntries_unhandled:
  "unhandled (useEntries server es cfg) = unhandled cfg"
proof (induction es arbitrary: cfg)
  case Nil
  show ?case by simp
next
  case (Cons e es)
  obtain name inp where e: "e = (name, inp)" by (cases e)
  obtain settled logged where c: "catch (warmupRequest server inp) (\<lambda>err. [(name, err)]) = (settled, logged)"
    by (cases "catch (warmupRequest server inp) (\<lambda>err. [(name, err)])")
  from c have "settled = Resolved" using catch_settled [of "warmupRequest server inp" "\<lambda>err. [(name, err)]"] by simp
  then show ?case using Cons.IH c by (simp add: e)
qed

lemma useEntries_errors:
  "errors (useEntries server es cfg) =
     errors cfg @
     concat (map (\<lambda>(name, inp). case warmupRequest server inp of
                                    Resolved \<Rightarrow> [] | Rejected err \<Rightarrow> [(name, err)]) es)"
proof (induction es arbitrary: cfg)
  case Nil
  show ?case by simp
next
  case (Cons e es)
  obtain name inp where e: "e = (name, inp)" by (cases e)
  show ?case using Cons.IH by (cases "warmupRequest server inp") (simp_all add: e)
qed

lemma exposed_part_all_exposed:
  "list_all (\<lambda>(route, mw). isExposedFile mw)
     (routes (useExposedFolders g options \<lparr>routes = [], warmedUp = [], errors = [], unhandled = []\<rparr>))"
  by (rule useExposedFolders_all_exposed) simp

lemma configureServer_routes:
  "routes (configureServer g options server) =
     routes (useExposedFolders g options \<lparr>routes = [], warmedUp = [], errors = [], unhandled = []\<rparr>)
     @ map (\<lambda>(name, inp). (''/'' @ name, EntryMiddleware name inp)) (entries (input server))"
  by (simp add: configureServer_def useEntries_routes)

lemma filter_entry_part:
  "filter (\<lambda>(route, mw). isExposedFile mw)
     (map (\<lambda>(name, inp). (f name, EntryMiddleware name inp)) es) = []"
  "filter (\<lambda>(route, mw). \<not> isExposedFile mw)
     (map (\<lambda>(name, inp). (f name, EntryMiddleware name inp)) es) =
   map (\<lambda>(name, inp). (f name, EntryMiddleware name inp)) es"
  by (induction es) auto

lemma filter_exposed_part:
  "list_all (\<lambda>(route, mw). isExposedFile mw) rs \<Longrightarrow>
     filter (\<lambda>(route, mw). isExposedFile mw) rs = rs \<and>
     filter (\<lambda>(route, mw). \<not> isExposedFile mw) rs = []"
  by (induction rs) auto

lemma configureServer_entryRoutes:
  "entryRoutes (configureServer g options server) =
     map (\<lambda>(name, inp). (''/'' @ name, EntryMiddleware name inp)) (entries (input server))"
  using filter_exposed_part [OF exposed_part_all_exposed [of g options]]
  by (simp add: entryRoutes_def configureServer_routes filter_entry_part)

lemma configureServer_exposedFileRoutes:
  "exposedFileRoutes (configureServer g options server) =
     routes (useExposedFolders g options \<lparr>routes = [], warmedUp = [], errors = [], unhandled = []\<rparr>)"
  using filter_exposed_part [OF exposed_part_all_exposed [of g options]]
  by (simp add: exposedFileRoutes_def configureServer_routes filter_entry_part)

lemma set_ownProperties: "set (ownProperties created) = set created"
  by (auto simp: ownProperties_def)

lemma entries_iff:
  "(name, inp) \<in> set (entries inputs) \<longleftrightarrow>
     (name, inp) \<in> set inputs \<and> (startsWith inp ''virtual:'' \<or> \<not> endsWith inp ''index.html'')"
  by (auto simp: entries_def set_ownProperties virtualInputs_def nonVirtualInputs_def
      record_filter_def record_filterWithIndex_def)

subsection \<open>The middlewares, case by case\<close>

lemma routes_shape:
  assumes "(route, mw) \<in> set (routes (configureServer g options server))"
  shows "(\<exists>folder file. mw = ExposedFileMiddleware folder file \<and> route = ''/'' @ file)
       \<or> (\<exists>name inp. mw = EntryMiddleware name inp \<and> route = ''/'' @ name)"
  using assms
  by (auto simp: configureServer_routes useExposedFolders_def useFolders_routes
      split: option.splits)

lemma exposed_no_match:
  "\<not> urlMatches req (''/'' @ file) \<Longrightarrow>
     handle dirname (ExposedFileMiddleware folder file) server entryCache req = ([Next], entryCache)"
  by (simp add: handle_def exposedFileMiddleware_def)

lemma exposed_fulfilled:
  "urlMatches req (''/'' @ file) \<Longrightarrow>
   transformRequest server (folder @ ''/'' @ file) = Fulfilled transformed \<Longrightarrow>
     handle dirname (ExposedFileMiddleware folder file) server entryCache req =
       ([TransformRequest (folder @ ''/'' @ file),
         SetHeader ''Content-Type'' ''application/javascript'',
         End (codeOrEmpty transformed)], entryCache)"
  by (simp add: handle_def exposedFileMiddleware_def)

lemma exposed_thrown:
  "urlMatches req (''/'' @ file) \<Longrightarrow>
   transformRequest server (folder @ ''/'' @ file) = Thrown err \<Longrightarrow>
     handle dirname (ExposedFileMiddleware folder file) server entryCache req =
       ([TransformRequest (folder @ ''/'' @ file), Throw err], entryCache)"
  by (simp add: handle_def exposedFileMiddleware_def)

lemma entry_no_match:
  "\<not> urlMatches req (''/'' @ name) \<Longrightarrow>
     handle dirname (EntryMiddleware name inp) server entryCache req = ([Next], entryCache)"
  by (simp add: handle_def entryMiddleware_def)

lemma entry_hit:
  "urlMatches req (''/'' @ name) \<Longrightarrow> entryCache name = Some contents \<Longrightarrow>
     handle dirname (EntryMiddleware name inp) server entryCache req =
       ([SetHeader ''Content-Type''
           (if startsWith contents ''// type: cssBundle'' then ''text/css''
            else ''application/javascript''),
         End contents], entryCache)"
  by (simp add: handle_def entryMiddleware_def)

lemma entry_thrown:
  "urlMatches req (''/'' @ name) \<Longrightarrow> entryCache name = None \<Longrightarrow>
   getModuleByUrl server inp = Thrown err \<Longrightarrow>
     handle dirname (EntryMiddleware name inp) server entryCache req =
       ([GetModuleByUrl inp, Throw err], entryCache)"
  by (simp add: handle_def entryMiddleware_def)

lemma entry_css:
  "urlMatches req (''/'' @ name) \<Longrightarrow> entryCache name = None \<Longrightarrow>
   getModuleByUrl server inp = Fulfilled module \<Longrightarrow>
   startsWith inp ''virtual:'' \<Longrightarrow> isCssOnly (importedFiles dirname module) \<Longrightarrow>
     handle dirname (EntryMiddleware name inp) server entryCache req =
       ([GetModuleByUrl inp,
         SetHeader ''Content-Type'' ''text/css'',
         End (''// type: cssBundle\<newline>\<newline>'' @ cssBundle (importedFiles dirname module))],
        entryCache(name \<mapsto> cssBundle (importedFiles dirname module)))"
  by (simp add: handle_def entryMiddleware_def Let_def)

lemma entry_code:
  "urlMatches req (''/'' @ name) \<Longrightarrow> entryCache name = None \<Longrightarrow>
   getModuleByUrl server inp = Fulfilled module \<Longrightarrow>
   \<not> (startsWith inp ''virtual:'' \<and> isCssOnly (importedFiles dirname module)) \<Longrightarrow>
     handle dirname (EntryMiddleware name inp) server entryCache req =
       ([GetModuleByUrl inp,
         SetHeader ''Content-Type'' ''application/javascript'',
         End (codeOrEmpty (transformResultOf module))],
        if hasCode (transformResultOf module)
        then entryCache(name \<mapsto> codeOrEmpty (transformResultOf module))
        else entryCache)"
  by (auto simp: handle_def entryMiddleware_def Let_def)

text \<open>What a suspended middleware does when it continues does not depend on the cache.\<close>

lemma resume_effects:
  "fst (resume dirname suspended entryCache) = fst (resume dirname suspended entryCache')"
  by (induction dirname suspended entryCache rule: resume.induct) (simp_all add: Let_def)

subsection \<open>The entry cache over a sequence of requests\<close>

lemma resume_dom:
  "dom entryCache \<subseteq> dom (snd (resume dirname suspended entryCache))"
  by (induction dirname suspended entryCache rule: resume.induct) (auto simp: Let_def)

lemma handle_cache_le:
  "entryCache \<subseteq>\<^sub>m snd (handle dirname mw server entryCache req)"
proof (cases mw)
  case (ExposedFileMiddleware folder path)
  show ?thesis
    by (cases "transformRequest server (folder @ ''/'' @ path)")
      (simp_all add: ExposedFileMiddleware handle_def exposedFileMiddleware_def)
next
  case (EntryMiddleware name inp)
  show ?thesis
  proof (cases "getModuleByUrl server inp")
    case (Fulfilled module)
    then show ?thesis
      by (auto simp: EntryMiddleware handle_def entryMiddleware_def Let_def map_le_def
          split: option.splits)
  next
    case (Thrown err)
    then show ?thesis
      by (auto simp: EntryMiddleware handle_def entryMiddleware_def split: option.splits)
  qed
qed

lemma serveAll_Cons:
  "serveAll dirname entryCache ((mw, server, req) # reqs) =
     (fst (handle dirname mw server entryCache req)
        # fst (serveAll dirname (snd (handle dirname mw server entryCache req)) reqs),
      snd (serveAll dirname (snd (handle dirname mw server entryCache req)) reqs))"
  by (simp add: split_def Let_def)

lemma serveAll_cache_le:
  "entryCache \<subseteq>\<^sub>m snd (serveAll dirname entryCache reqs)"
proof (induction reqs arbitrary: entryCache)
  case Nil
  show ?case by simp
next
  case (Cons r reqs)
  obtain mw server req where r: "r = (mw, server, req)" by (cases r)
  have "entryCache \<subseteq>\<^sub>m snd (handle dirname mw server entryCache req)"
    by (rule handle_cache_le)
  also have "\<dots> \<subseteq>\<^sub>m snd (serveAll dirname (snd (handle dirname mw server entryCache req)) reqs)"
    by (rule Cons.IH)
  finally show ?case
    by (simp only: r serveAll_Cons snd_conv)
qed

lemma serveAll_append:
  "snd (serveAll dirname entryCache (reqs @ rest)) =
     snd (serveAll dirname (snd (serveAll dirname entryCache reqs)) rest)"
proof (induction reqs arbitrary: entryCache)
  case Nil
  show ?case by simp
next
  case (Cons r reqs)
  obtain mw server req where r: "r = (mw, server, req)" by (cases r)
  show ?case using Cons.IH [of "snd (handle dirname mw server entryCache req)"]
    by (simp only: r append_Cons serveAll_Cons snd_conv)
qed

lemma serveAll_replicate_fixed:
  assumes "handle dirname mw server entryCache req = (events, entryCache)"
  shows "serveAll dirname entryCache (replicate n (mw, server, req)) =
           (replicate n events, entryCache)"
  using assms by (induction n) simp_all

lemma act_dom:
  "dom (cached r) \<subseteq> dom (cached (act dirname r a))"
proof (cases a)
  case (Arrive mw server req)
  then show ?thesis by (simp split: prod.splits)
next
  case (Settle i)
  show ?thesis
  proof (cases "i < length (awaiting r)")
    case False
    then show ?thesis by (simp add: Settle)
  next
    case True
    show ?thesis
    proof (cases "awaiting r ! i")
      case None
      then show ?thesis using True by (simp add: Settle)
    next
      case (Some suspended)
      then show ?thesis
        using True resume_dom [of "cached r" dirname suspended]
        by (simp add: Settle split: prod.splits) auto
    qed
  qed
qed

lemma run_dom:
  "dom (cached r) \<subseteq> dom (cached (run dirname r actions))"
proof (induction actions arbitrary: r)
  case Nil
  show ?case by (simp add: run_def)
next
  case (Cons a actions)
  have "dom (cached r) \<subseteq> dom (cached (act dirname r a))"
    by (rule act_dom)
  also have "\<dots> \<subseteq> dom (cached (run dirname (act dirname r a) actions))"
    by (rule Cons.IH)
  finally show ?case by (simp add: run_def)
qed

lemma run_append:
  "run dirname r (actions @ rest) = run dirname (run dirname r actions) rest"
  by (simp add: run_def)

subsection \<open>Strings and the style sheet bundle\<close>

lemma replace_prefix:
  "replace (pat @ s) pat [] = s"
proof (cases "pat @ s")
  case Nil
  then show ?thesis by simp
next
  case (Cons c t)
  have "prefix pat (c # t)"
    unfolding Cons [symmetric] by simp
  then have "replace (c # t) pat [] = drop (length pat) (c # t)"
    by simp
  then show ?thesis
    unfolding Cons [symmetric] by simp
qed

lemma replace_nothing:
  "\<not> sublist pat s \<Longrightarrow> replace s pat rep = s"
proof (induction s)
  case Nil
  then show ?case by auto
next
  case (Cons c s)
  then show ?case by (auto simp: sublist_Cons_right)
qed

text \<open>
  The occurrence that \<open>replace\<close> removes is the first one, wherever it is: a path that
  does not start with the root but holds it further on loses it there.
\<close>

lemma replace_first_occurrence:
  "replace ''/x/srv/app/a.css'' ''/srv/app'' [] = ''/x/a.css''
   \<and> replace ''/srv/app/srv/app/a.css'' ''/srv/app'' [] = ''/srv/app/a.css''"
  by simp

lemma join_Cons:
  "join sep (x # xs) = (if xs = [] then x else x @ sep @ join sep xs)"
  by (cases xs) simp_all

lemma cssBundle_not_marker:
  "files \<noteq> [] \<Longrightarrow> \<not> startsWith (cssBundle files) ''// type: cssBundle''"
  by (cases files) (simp_all add: cssBundle_def join_Cons importLine_def startsWith_def)







subsection \<open>The example inputs\<close>

lemma example_css_files:
  "importedFiles ''/srv/app'' (exampleModules ''virtual:css'') = [''a.css'', ''b.css'']"
  by (simp add: exampleModules_def importedFiles_def List.map_filter_simps)

lemma example_mixed_files:
  "importedFiles ''/srv/app'' (exampleModules ''virtual:main'') = [''a.css'', ''b.js'']"
  by (simp add: exampleModules_def importedFiles_def List.map_filter_simps)

lemma example_lookup:
  "getModuleByUrl exampleServer url = Fulfilled (exampleModules url)"
  by (simp add: exampleServer_def)

lemma example_matches:
  "urlMatches (exampleRequest ''/virtual:css'') (''/'' @ ''virtual:css'')"
  "urlMatches (exampleRequest ''/virtual:main'') (''/'' @ ''virtual:main'')"
  "urlMatches (exampleRequest ''/virtual:rooted'') (''/'' @ ''virtual:rooted'')"
  "urlMatches (exampleRequest ''/main'') (''/'' @ ''main'')"
  by (simp_all add: urlMatches_def exampleRequest_def startsWith_def)

section \<open>The claims\<close>

text \<open>
  C1. The claim is that a style sheet bundle, once cached, is again served as
  \<^verbatim>\<open>text/css\<close>. The code does otherwise. The first request of a style sheet bundle is
  answered as \<^verbatim>\<open>text/css\<close> with the marker in front, but what is stored in the entry cache
  is the import statements without the marker. A second matching request finds them
  there, looks for the marker at their start, does not find it (they start with
  \<^verbatim>\<open>@import\<close>), and answers with \<^verbatim>\<open>Content-Type: application/javascript\<close>; its body
  is the import statements.
\<close>

theorem C1_cached_bundle_is_served_as_javascript:
  assumes "urlMatches req (''/'' @ name)"
    and "urlMatches req' (''/'' @ name)"
    and "entryCache name = None"
    and "startsWith inp ''virtual:''"
    and "getModuleByUrl server inp = Fulfilled module"
    and "isCssOnly (importedFiles dirname module)"
    and "stored = cssBundle (importedFiles dirname module)"
  shows "serveAll dirname entryCache
           [(EntryMiddleware name inp, server, req), (EntryMiddleware name inp, server', req')] =
         ([[GetModuleByUrl inp,
            SetHeader ''Content-Type'' ''text/css'',
            End (''// type: cssBundle\<newline>\<newline>'' @ stored)],
           [SetHeader ''Content-Type'' ''application/javascript'', End stored]],
          entryCache(name \<mapsto> stored))"
proof -
  have first: "handle dirname (EntryMiddleware name inp) server entryCache req =
      ([GetModuleByUrl inp, SetHeader ''Content-Type'' ''text/css'',
        End (''// type: cssBundle\<newline>\<newline>'' @ stored)],
       entryCache(name \<mapsto> stored))"
    using entry_css [of req name entryCache server inp module dirname] assms by simp
  have "importedFiles dirname module \<noteq> []"
    using assms(6) by (auto simp: isCssOnly_def)
  then have "\<not> startsWith stored ''// type: cssBundle''"
    unfolding assms(7) by (rule cssBundle_not_marker)
  then have second: "handle dirname (EntryMiddleware name inp) server' (entryCache(name \<mapsto> stored)) req' =
      ([SetHeader ''Content-Type'' ''application/javascript'', End stored],
       entryCache(name \<mapsto> stored))"
    using entry_hit [of req' name "entryCache(name \<mapsto> stored)" "stored" dirname inp server']
      assms(2) by simp
  show ?thesis
    using first second by (simp add: serveAll_Cons)
qed

theorem C1_witness:
  "serveAll ''/srv/app'' Map.empty
     [(EntryMiddleware ''virtual:css'' ''virtual:css'', exampleServer, exampleRequest ''/virtual:css''),
      (EntryMiddleware ''virtual:css'' ''virtual:css'', exampleServer, exampleRequest ''/virtual:css'')] =
   ([[GetModuleByUrl ''virtual:css'',
      SetHeader ''Content-Type'' ''text/css'',
      End ''// type: cssBundle\<newline>\<newline>@import 'a.css';\<newline>@import 'b.css';''],
     [SetHeader ''Content-Type'' ''application/javascript'',
      End ''@import 'a.css';\<newline>@import 'b.css';'']],
    [''virtual:css'' \<mapsto> ''@import 'a.css';\<newline>@import 'b.css';''])"
proof -
  have v: "startsWith ''virtual:css'' ''virtual:''"
    by (simp add: startsWith_def)
  have c: "isCssOnly (importedFiles ''/srv/app'' (exampleModules ''virtual:css''))"
    by (simp add: example_css_files isCssOnly_def endsWith_def suffix_def)
  have b: "''@import 'a.css';\<newline>@import 'b.css';'' =
      cssBundle (importedFiles ''/srv/app'' (exampleModules ''virtual:css''))"
    by (simp add: example_css_files cssBundle_def importLine_def)
  show ?thesis
    using C1_cached_bundle_is_served_as_javascript [OF example_matches(1) example_matches(1) _ v
        example_lookup c b, of Map.empty exampleServer]
    by simp
qed

text \<open>
  C2 fails as stated, in two ways. The route of an exposed file is its location below the
  exposed folder, not below the folder's parent: for the folder \<^verbatim>\<open>/srv/app/public\<close> the
  routes are \<^verbatim>\<open>/a.js\<close> and \<^verbatim>\<open>/sub/b.css\<close>, and no route is \<^verbatim>\<open>/public/a.js\<close> or
  \<^verbatim>\<open>/public/sub/b.css\<close>. And a matching request is not answered when the transform is
  rejected: the middleware ends at its \<^verbatim>\<open>await\<close> with no header and no body.
\<close>

theorem C2_counterexample:
  "exposedFileRoutes (configureServer exampleGlob absoluteOptions exampleServer) =
     [(''/a.js'', ExposedFileMiddleware ''/srv/app/public'' ''a.js''),
      (''/sub/b.css'', ExposedFileMiddleware ''/srv/app/public'' ''sub/b.css'')]
   \<and> ''/public/a.js'' \<notin> fst ` set (routes (configureServer exampleGlob absoluteOptions exampleServer))
   \<and> ''/public/sub/b.css'' \<notin> fst ` set (routes (configureServer exampleGlob absoluteOptions exampleServer))
   \<and> urlMatches (exampleRequest ''/a.js'') ''/a.js''
   \<and> fst (handle ''/srv/app'' (ExposedFileMiddleware ''/srv/app/public'' ''a.js'') rejectingServer
         Map.empty (exampleRequest ''/a.js'')) =
       [TransformRequest ''/srv/app/public/a.js'', Throw ''failed'']"
  by code_simp

text \<open>
  C2, as amended. Let every path that \<^verbatim>\<open>glob.sync\<close> returns for an exposed folder be the
  folder, a slash and the location of a file below the folder. Then one route is
  registered per file, in the order of the folders and of the files: the route is a slash
  followed by the location of the file below the folder. So there are as many
  exposed-file routes as paths returned. On a matching request the middleware of such a
  route requests the transform of the file's own path, and if the transform is not
  rejected it sets \<^verbatim>\<open>Content-Type: application/javascript\<close> and sends the transformed
  code, or an empty body if there is none, whatever the extension of the file.
\<close>

theorem C2_exposed_file_routes:
  assumes "\<forall>folder \<in> set folders.
             g (folder @ ''/**/*'') = map (\<lambda>below. folder @ ''/'' @ below) (files folder)"
  shows "exposedFileRoutes (configureServer g (Some \<lparr>exposedFolders = Some folders\<rparr>) server) =
           concat (map (\<lambda>folder.
                          map (\<lambda>below. (''/'' @ below, ExposedFileMiddleware folder below))
                            (files folder))
                     folders)
       \<and> length (exposedFileRoutes (configureServer g (Some \<lparr>exposedFolders = Some folders\<rparr>) server)) =
           sum_list (map (\<lambda>folder. length (g (folder @ ''/**/*''))) folders)
       \<and> (urlMatches req (''/'' @ below) \<and>
           transformRequest server' (folder @ ''/'' @ below) = Fulfilled transformed \<longrightarrow>
            handle dirname (ExposedFileMiddleware folder below) server' entryCache req =
              ([TransformRequest (folder @ ''/'' @ below),
                SetHeader ''Content-Type'' ''application/javascript'',
                End (codeOrEmpty transformed)],
               entryCache))"
proof -
  have stripped: "exposedFiles g folder = files folder" if "folder \<in> set folders" for folder
  proof -
    have "replace ((folder @ ''/'') @ below) (folder @ ''/'') [] = below" for below
      by (rule replace_prefix)
    then show ?thesis
      using assms that by (simp add: exposedFiles_def comp_def)
  qed
  have registered:
    "exposedFileRoutes (configureServer g (Some \<lparr>exposedFolders = Some folders\<rparr>) server) =
       concat (map (\<lambda>folder.
                      map (\<lambda>below. (''/'' @ below, ExposedFileMiddleware folder below))
                        (files folder))
                 folders)"
    using stripped
    by (simp add: configureServer_exposedFileRoutes useExposedFolders_def useFolders_routes
        cong: map_cong)
  have same_length: "map (\<lambda>folder. length (g (folder @ ''/**/*''))) folders =
      map (\<lambda>folder. length (files folder)) folders"
    by (rule map_cong) (use assms in auto)
  have "length (concat (map (\<lambda>folder.
                      map (\<lambda>below. (''/'' @ below, ExposedFileMiddleware folder below))
                        (files folder))
                 folders)) =
      sum_list (map (\<lambda>folder. length (files folder)) folders)"
    by (simp add: length_concat comp_def)
  then have counted:
    "length (exposedFileRoutes (configureServer g (Some \<lparr>exposedFolders = Some folders\<rparr>) server)) =
       sum_list (map (\<lambda>folder. length (g (folder @ ''/**/*''))) folders)"
    by (simp only: registered same_length)
  have served: "urlMatches req (''/'' @ below) \<and>
      transformRequest server' (folder @ ''/'' @ below) = Fulfilled transformed \<longrightarrow>
      handle dirname (ExposedFileMiddleware folder below) server' entryCache req =
        ([TransformRequest (folder @ ''/'' @ below),
          SetHeader ''Content-Type'' ''application/javascript'',
          End (codeOrEmpty transformed)],
         entryCache)"
    using exposed_fulfilled [of req below server' folder transformed dirname entryCache] by blast
  show ?thesis using registered counted served by blast
qed

theorem C2_witness:
  "exposedFileRoutes (configureServer exampleGlob absoluteOptions exampleServer) =
     [(''/a.js'', ExposedFileMiddleware ''/srv/app/public'' ''a.js''),
      (''/sub/b.css'', ExposedFileMiddleware ''/srv/app/public'' ''sub/b.css'')]
   \<and> handle ''/srv/app'' (ExposedFileMiddleware ''/srv/app/public'' ''a.js'') exampleServer
        Map.empty (exampleRequest ''/a.js?v=1'') =
       ([TransformRequest ''/srv/app/public/a.js'',
         SetHeader ''Content-Type'' ''application/javascript'',
         End ''Z''],
        Map.empty)"
proof -
  have g: "\<forall>folder \<in> set [''/srv/app/public''].
      exampleGlob (folder @ ''/**/*'') =
        map (\<lambda>below. folder @ ''/'' @ below) ((\<lambda>folder. [''a.js'', ''sub/b.css'']) folder)"
    by (simp add: exampleGlob_def)
  have m: "urlMatches (exampleRequest ''/a.js?v=1'') (''/'' @ ''a.js'')"
    by (simp add: urlMatches_def exampleRequest_def startsWith_def)
  have t: "transformRequest exampleServer (''/srv/app/public'' @ ''/'' @ ''a.js'') =
      Fulfilled (Some \<lparr>code = ''Z''\<rparr>)"
    by (simp add: exampleServer_def)
  show ?thesis
    using C2_exposed_file_routes [OF g, of exampleServer "exampleRequest ''/a.js?v=1''" "''a.js''"
        exampleServer "''/srv/app/public''" "Some \<lparr>code = ''Z''\<rparr>" "''/srv/app''" Map.empty] m t
    by (simp add: absoluteOptions_def codeOrEmpty_def)
qed

text \<open>
  C2, the case left out above. A folder given relative to the working directory is not at
  the start of the absolute paths that \<^verbatim>\<open>glob.sync\<close> returns. Its first occurrence is
  then removed from the middle of each path, and neither the route nor the path of the
  transform is the one of the file.
\<close>

lemma relative_folder_is_cut_out_of_the_path:
  "exposedFileRoutes (configureServer exampleGlob exampleOptions exampleServer) =
     [(''//srv/app/a.js'', ExposedFileMiddleware ''public'' ''/srv/app/a.js''),
      (''//srv/app/sub/b.css'', ExposedFileMiddleware ''public'' ''/srv/app/sub/b.css'')]
   \<and> fst (handle ''/srv/app'' (ExposedFileMiddleware ''public'' ''/srv/app/a.js'') exampleServer
          Map.empty (exampleRequest ''//srv/app/a.js'')) =
       [TransformRequest ''public//srv/app/a.js'',
        SetHeader ''Content-Type'' ''application/javascript'',
        End []]"
  by code_simp

text \<open>
  C3 fails as stated: the test for \<^verbatim>\<open>index.html\<close> is made on the input of an entry,
  not on its key. An entry named \<^verbatim>\<open>index.html\<close> with the input \<^verbatim>\<open>src/main.ts\<close> is
  routed, and an entry named \<^verbatim>\<open>main\<close> with the input \<^verbatim>\<open>index.html\<close> is not: no route
  \<^verbatim>\<open>/main\<close> is registered.
\<close>

theorem C3_counterexample:
  "endsWith ''index.html'' ''index.html''
   \<and> (''/index.html'', EntryMiddleware ''index.html'' ''src/main.ts'')
       \<in> set (routes (configureServer exampleGlob None htmlServer))
   \<and> \<not> endsWith ''main'' ''index.html''
   \<and> ''/main'' \<notin> fst ` set (routes (configureServer exampleGlob None htmlServer))"
  by code_simp

text \<open>
  C3, as amended. The route of an entry is registered if and only if the entry is in the
  entry map and its input (not its key) either starts with \<^verbatim>\<open>virtual:\<close> or does not end
  in \<^verbatim>\<open>index.html\<close>; the route is \<^verbatim>\<open>/\<close> followed by the entry's name.
\<close>

theorem C3_entry_is_routed_iff:
  "(route, EntryMiddleware name inp) \<in> set (routes (configureServer g options server)) \<longleftrightarrow>
     route = ''/'' @ name \<and> (name, inp) \<in> set (input server) \<and>
     (startsWith inp ''virtual:'' \<or> \<not> endsWith inp ''index.html'')"
proof -
  have "(route, EntryMiddleware name inp) \<notin>
      set (routes (useExposedFolders g options \<lparr>routes = [], warmedUp = [], errors = [], unhandled = []\<rparr>))"
    using exposed_part_all_exposed [of g options] by (auto simp: list_all_iff)
  then have "(route, EntryMiddleware name inp) \<in> set (routes (configureServer g options server)) \<longleftrightarrow>
      route = ''/'' @ name \<and> (name, inp) \<in> set (entries (input server))"
    by (auto simp: configureServer_routes)
  then show ?thesis by (simp add: entries_iff)
qed

theorem C3_witness:
  "(''/main'', EntryMiddleware ''main'' ''src/main.ts'')
     \<in> set (routes (configureServer exampleGlob exampleOptions exampleServer))
   \<and> (''/virtual:css'', EntryMiddleware ''virtual:css'' ''virtual:css'')
     \<in> set (routes (configureServer exampleGlob exampleOptions exampleServer))
   \<and> (''/index.html'', EntryMiddleware ''index.html'' ''index.html'')
     \<notin> set (routes (configureServer exampleGlob exampleOptions exampleServer))"
  using C3_entry_is_routed_iff [of "''/main''" "''main''" "''src/main.ts''" exampleGlob exampleOptions exampleServer]
    C3_entry_is_routed_iff [of "''/virtual:css''" "''virtual:css''" "''virtual:css''" exampleGlob exampleOptions exampleServer]
    C3_entry_is_routed_iff [of "''/index.html''" "''index.html''" "''index.html''" exampleGlob exampleOptions exampleServer]
  by (simp add: exampleServer_def startsWith_def endsWith_def suffix_def)



text \<open>
  C5 fails as stated for a request that is served from the entry cache: there the content
  type is chosen from the cached text. A virtual entry that imports \<^verbatim>\<open>a.css\<close> and
  \<^verbatim>\<open>b.js\<close> and whose transformed code starts with the marker is answered as JavaScript
  the first time and as \<^verbatim>\<open>text/css\<close> the second time.
\<close>

theorem C5_counterexample:
  "startsWith ''virtual:marked'' ''virtual:''
   \<and> importedFiles ''/srv/app'' (exampleModules ''virtual:marked'') = [''a.css'', ''b.js'']
   \<and> \<not> isCssOnly (importedFiles ''/srv/app'' (exampleModules ''virtual:marked''))
   \<and> map headers
        (fst (serveAll ''/srv/app'' Map.empty
           [(EntryMiddleware ''virtual:marked'' ''virtual:marked'', exampleServer,
             exampleRequest ''/virtual:marked''),
            (EntryMiddleware ''virtual:marked'' ''virtual:marked'', exampleServer,
             exampleRequest ''/virtual:marked'')])) =
       [[(''Content-Type'', ''application/javascript'')], [(''Content-Type'', ''text/css'')]]"
  by code_simp

text \<open>
  C5, as amended. On a matching request that is not served from the entry cache, and for
  which the module graph answers, the response is a style sheet if and only if the input
  starts with \<^verbatim>\<open>virtual:\<close>, the list of imported files is not empty and each of them
  ends in \<^verbatim>\<open>.css\<close>; otherwise it is JavaScript. So on such a request an entry without
  imported files is answered as JavaScript, and so is one that imports \<^verbatim>\<open>a.css\<close> and
  \<^verbatim>\<open>b.js\<close>.
\<close>

theorem C5_css_only_iff:
  assumes "urlMatches req (''/'' @ name)"
    and "entryCache name = None"
    and "getModuleByUrl server inp = Fulfilled module"
    and "files = importedFiles dirname module"
  shows "(headers (fst (handle dirname (EntryMiddleware name inp) server entryCache req)) =
            [(''Content-Type'', ''text/css'')]
          \<longleftrightarrow> startsWith inp ''virtual:'' \<and> files \<noteq> [] \<and> (\<forall>f \<in> set files. endsWith f ''.css''))
       \<and> (headers (fst (handle dirname (EntryMiddleware name inp) server entryCache req)) =
            [(''Content-Type'', ''application/javascript'')]
          \<longleftrightarrow> \<not> (startsWith inp ''virtual:'' \<and> files \<noteq> [] \<and> (\<forall>f \<in> set files. endsWith f ''.css'')))
       \<and> (files = [] \<longrightarrow>
            headers (fst (handle dirname (EntryMiddleware name inp) server entryCache req)) =
              [(''Content-Type'', ''application/javascript'')])
       \<and> (files = [''a.css'', ''b.js''] \<longrightarrow>
            headers (fst (handle dirname (EntryMiddleware name inp) server entryCache req)) =
              [(''Content-Type'', ''application/javascript'')])"
proof -
  let ?css = "startsWith inp ''virtual:'' \<and> files \<noteq> [] \<and> (\<forall>f \<in> set files. endsWith f ''.css'')"
  let ?h = "headers (fst (handle dirname (EntryMiddleware name inp) server entryCache req))"
  have branch: "?css \<longleftrightarrow> startsWith inp ''virtual:'' \<and> isCssOnly (importedFiles dirname module)"
    using assms(4) by (auto simp: isCssOnly_def list_all_iff)
  have yes: "?css \<Longrightarrow> ?h = [(''Content-Type'', ''text/css'')]"
    using entry_css [of req name entryCache server inp module dirname] assms(1-3) branch
    by simp
  have no: "\<not> ?css \<Longrightarrow> ?h = [(''Content-Type'', ''application/javascript'')]"
    using entry_code [of req name entryCache server inp module dirname] assms(1-3) branch
    by simp
  have differ: "[(''Content-Type'', ''text/css'')] \<noteq> [(''Content-Type'', ''application/javascript'')]"
    by simp
  have mixed: "\<not> (\<forall>f \<in> set [''a.css'', ''b.js'']. endsWith f ''.css'')"
    by (simp add: endsWith_def suffix_def)
  show ?thesis
  proof (cases ?css)
    case True
    then have "?h = [(''Content-Type'', ''text/css'')]" by (rule yes)
    then show ?thesis using True differ mixed by auto
  next
    case False
    then have "?h = [(''Content-Type'', ''application/javascript'')]" by (rule no)
    then show ?thesis using False differ by auto
  qed
qed

theorem C5_witness:
  "headers (fst (handle ''/srv/app'' (EntryMiddleware ''virtual:main'' ''virtual:main'') exampleServer
      Map.empty (exampleRequest ''/virtual:main''))) = [(''Content-Type'', ''application/javascript'')]
   \<and> headers (fst (handle ''/srv/app'' (EntryMiddleware ''virtual:css'' ''virtual:css'') exampleServer
      Map.empty (exampleRequest ''/virtual:css''))) = [(''Content-Type'', ''text/css'')]"
proof -
  have v: "startsWith ''virtual:css'' ''virtual:''"
    by (simp add: startsWith_def)
  have c: "\<forall>f \<in> set [''a.css'', ''b.css'']. endsWith f ''.css''"
    by (simp add: endsWith_def suffix_def)
  show ?thesis
    using C5_css_only_iff [OF example_matches(2) _ example_lookup example_mixed_files [symmetric],
        of Map.empty]
      C5_css_only_iff [OF example_matches(1) _ example_lookup example_css_files [symmetric],
        of Map.empty]
      v c
    by simp
qed

text \<open>
  C6 fails as stated when the transformed code is the empty string: the entry is not
  virtual, its module has transformed code, the body is that code, and nothing is stored
  in the entry cache under the entry's name.
\<close>

theorem C6_counterexample:
  "urlMatches (exampleRequest ''/empty'') ''/empty''
   \<and> \<not> startsWith ''src/empty.ts'' ''virtual:''
   \<and> getModuleByUrl exampleServer ''src/empty.ts'' =
       Fulfilled (Some \<lparr>transformResult = Some \<lparr>code = []\<rparr>, importedModules = []\<rparr>)
   \<and> bodies (fst (handle ''/srv/app'' (EntryMiddleware ''empty'' ''src/empty.ts'') exampleServer
        Map.empty (exampleRequest ''/empty''))) = [[]]
   \<and> snd (handle ''/srv/app'' (EntryMiddleware ''empty'' ''src/empty.ts'') exampleServer Map.empty
        (exampleRequest ''/empty'')) ''empty'' \<noteq> Some []"
  by (simp add: handle_def entryMiddleware_def urlMatches_def exampleRequest_def startsWith_def
      exampleServer_def exampleModules_def transformResultOf_def hasCode_def codeOrEmpty_def)

text \<open>
  C6, as amended. Let an entry that is not served as a style sheet bundle be requested
  twice, with nothing cached under its name at first and the same host both times, and let
  \<open>X\<close> be the transformed code of its module (the empty string if there is none). If
  \<open>X\<close> is not empty, the first response is JavaScript with body \<open>X\<close>, \<open>X\<close> is stored
  under the entry's name, and the second response has the same body: from the cache if the
  second request arrives when the first is finished, and from a module-graph lookup of its
  own if it arrives while the first is waiting, whichever of the two continues first. If
  \<open>X\<close> is empty, both bodies are empty, both requests look the module up, and the cache
  is left as it was.
\<close>

theorem C6_code_is_cached_unless_empty:
  assumes "urlMatches req (''/'' @ name)"
    and "urlMatches req' (''/'' @ name)"
    and "entryCache name = None"
    and "getModuleByUrl server inp = Fulfilled module"
    and "\<not> (startsWith inp ''virtual:'' \<and> isCssOnly (importedFiles dirname module))"
    and "X = codeOrEmpty (transformResultOf module)"
    and "fresh = [GetModuleByUrl inp, SetHeader ''Content-Type'' ''application/javascript'', End X]"
  shows "(X \<noteq> [] \<longrightarrow>
            run dirname (starting entryCache)
              [Arrive (EntryMiddleware name inp) server req, Settle 0,
               Arrive (EntryMiddleware name inp) server req', Settle 1] =
            \<lparr>cached = entryCache(name \<mapsto> X),
             effects = [fresh,
                        [SetHeader ''Content-Type''
                           (if startsWith X ''// type: cssBundle'' then ''text/css''
                            else ''application/javascript''),
                         End X]],
             awaiting = [None, None]\<rparr>
          \<and> run dirname (starting entryCache)
              [Arrive (EntryMiddleware name inp) server req,
               Arrive (EntryMiddleware name inp) server req', Settle 0, Settle 1] =
            \<lparr>cached = entryCache(name \<mapsto> X), effects = [fresh, fresh], awaiting = [None, None]\<rparr>
          \<and> run dirname (starting entryCache)
              [Arrive (EntryMiddleware name inp) server req,
               Arrive (EntryMiddleware name inp) server req', Settle 1, Settle 0] =
            \<lparr>cached = entryCache(name \<mapsto> X), effects = [fresh, fresh], awaiting = [None, None]\<rparr>)
       \<and> (X = [] \<longrightarrow>
            run dirname (starting entryCache)
              [Arrive (EntryMiddleware name inp) server req, Settle 0,
               Arrive (EntryMiddleware name inp) server req', Settle 1] =
            \<lparr>cached = entryCache, effects = [fresh, fresh], awaiting = [None, None]\<rparr>
          \<and> run dirname (starting entryCache)
              [Arrive (EntryMiddleware name inp) server req,
               Arrive (EntryMiddleware name inp) server req', Settle 0, Settle 1] =
            \<lparr>cached = entryCache, effects = [fresh, fresh], awaiting = [None, None]\<rparr>
          \<and> run dirname (starting entryCache)
              [Arrive (EntryMiddleware name inp) server req,
               Arrive (EntryMiddleware name inp) server req', Settle 1, Settle 0] =
            \<lparr>cached = entryCache, effects = [fresh, fresh], awaiting = [None, None]\<rparr>)"
proof -
  let ?k = "AwaitGetModuleByUrl name inp (Fulfilled module)"
  have code: "hasCode (transformResultOf module) \<longleftrightarrow> X \<noteq> []"
    using assms(6) by (simp add: hasCode_def codeOrEmpty_def split: option.splits)
  have miss: "call (EntryMiddleware name inp) server c r = ([GetModuleByUrl inp], Some ?k)"
    if "urlMatches r (''/'' @ name)" and "c name = None" for c r
    using that assms(4) by (simp add: entryMiddleware_def)
  have hit: "call (EntryMiddleware name inp) server c r =
      ([SetHeader ''Content-Type''
          (if startsWith X ''// type: cssBundle'' then ''text/css''
           else ''application/javascript''), End X], None)"
    if "urlMatches r (''/'' @ name)" and "c name = Some X" for c r
    using that by (simp add: entryMiddleware_def)
  have continue: "resume dirname ?k c =
      ([SetHeader ''Content-Type'' ''application/javascript'', End X],
       if X \<noteq> [] then c(name \<mapsto> X) else c)" for c
    using assms(5,6) code by (auto simp: Let_def)
  have m1: "call (EntryMiddleware name inp) server entryCache req = ([GetModuleByUrl inp], Some ?k)"
    using assms(1,3) by (rule miss)
  have m2: "call (EntryMiddleware name inp) server entryCache req' = ([GetModuleByUrl inp], Some ?k)"
    using assms(2,3) by (rule miss)
  have h2: "call (EntryMiddleware name inp) server (entryCache(name \<mapsto> X)) req' =
      ([SetHeader ''Content-Type''
          (if startsWith X ''// type: cssBundle'' then ''text/css''
           else ''application/javascript''), End X], None)"
    using assms(2) by (rule hit) simp
  show ?thesis
    using m1 m2 h2 continue
    by (simp add: run_def starting_def assms(7))
qed

theorem C6_witness:
  "run ''/srv/app'' (starting Map.empty)
     [Arrive (EntryMiddleware ''main'' ''src/main.ts'') exampleServer (exampleRequest ''/main''),
      Settle 0,
      Arrive (EntryMiddleware ''main'' ''src/main.ts'') exampleServer (exampleRequest ''/main''),
      Settle 1] =
   \<lparr>cached = [''main'' \<mapsto> ''X''],
    effects =
      [[GetModuleByUrl ''src/main.ts'', SetHeader ''Content-Type'' ''application/javascript'', End ''X''],
       [SetHeader ''Content-Type'' ''application/javascript'', End ''X'']],
    awaiting = [None, None]\<rparr>
   \<and> run ''/srv/app'' (starting Map.empty)
     [Arrive (EntryMiddleware ''main'' ''src/main.ts'') exampleServer (exampleRequest ''/main''),
      Arrive (EntryMiddleware ''main'' ''src/main.ts'') exampleServer (exampleRequest ''/main''),
      Settle 1, Settle 0] =
   \<lparr>cached = [''main'' \<mapsto> ''X''],
    effects =
      [[GetModuleByUrl ''src/main.ts'', SetHeader ''Content-Type'' ''application/javascript'', End ''X''],
       [GetModuleByUrl ''src/main.ts'', SetHeader ''Content-Type'' ''application/javascript'', End ''X'']],
    awaiting = [None, None]\<rparr>
   \<and> run ''/srv/app'' (starting Map.empty)
     [Arrive (EntryMiddleware ''virtual:none'' ''virtual:none'') exampleServer (exampleRequest ''/virtual:none''),
      Settle 0,
      Arrive (EntryMiddleware ''virtual:none'' ''virtual:none'') exampleServer (exampleRequest ''/virtual:none''),
      Settle 1] =
   \<lparr>cached = Map.empty,
    effects =
      [[GetModuleByUrl ''virtual:none'', SetHeader ''Content-Type'' ''application/javascript'', End []],
       [GetModuleByUrl ''virtual:none'', SetHeader ''Content-Type'' ''application/javascript'', End []]],
    awaiting = [None, None]\<rparr>"
proof -
  have m: "urlMatches (exampleRequest ''/virtual:none'') (''/'' @ ''virtual:none'')"
    by (simp add: urlMatches_def exampleRequest_def startsWith_def)
  have n1: "\<not> (startsWith ''src/main.ts'' ''virtual:'' \<and>
      isCssOnly (importedFiles ''/srv/app'' (exampleModules ''src/main.ts'')))"
    by (simp add: startsWith_def)
  have n2: "\<not> (startsWith ''virtual:none'' ''virtual:'' \<and>
      isCssOnly (importedFiles ''/srv/app'' (exampleModules ''virtual:none'')))"
    by (simp add: exampleModules_def importedFiles_def isCssOnly_def List.map_filter_simps)
  have x1: "''X'' = codeOrEmpty (transformResultOf (exampleModules ''src/main.ts''))"
    by (simp add: exampleModules_def transformResultOf_def codeOrEmpty_def)
  have x2: "[] = codeOrEmpty (transformResultOf (exampleModules ''virtual:none''))"
    by (simp add: exampleModules_def transformResultOf_def codeOrEmpty_def)
  have s: "\<not> startsWith ''X'' ''// type: cssBundle''"
    by (simp add: startsWith_def)
  show ?thesis
    using C6_code_is_cached_unless_empty [OF example_matches(4) example_matches(4) _ example_lookup
        n1 x1 refl, of Map.empty]
      C6_code_is_cached_unless_empty [OF m m _ example_lookup n2 x2 refl, of Map.empty]
      s
    by simp
qed

text \<open>
  C7 fails as stated when the host call that a middleware awaits is rejected: nothing
  catches the error, and the middleware of a matching request ends with no header, no body
  and no call of \<^verbatim>\<open>next\<close>. This is so for the middleware of an entry, registered under
  \<^verbatim>\<open>/main\<close>, and for the middleware of an exposed file, registered under \<^verbatim>\<open>/a.js\<close>.
\<close>

theorem C7_counterexample:
  "(''/main'', EntryMiddleware ''main'' ''src/main.ts'')
     \<in> set (routes (configureServer exampleGlob absoluteOptions exampleServer))
   \<and> urlMatches (exampleRequest ''/main'') ''/main''
   \<and> fst (handle ''/srv/app'' (EntryMiddleware ''main'' ''src/main.ts'') rejectingServer Map.empty
        (exampleRequest ''/main'')) = [GetModuleByUrl ''src/main.ts'', Throw ''failed'']
   \<and> length (bodies (fst (handle ''/srv/app'' (EntryMiddleware ''main'' ''src/main.ts'')
        rejectingServer Map.empty (exampleRequest ''/main'')))) \<noteq> 1
   \<and> (''/a.js'', ExposedFileMiddleware ''/srv/app/public'' ''a.js'')
     \<in> set (routes (configureServer exampleGlob absoluteOptions exampleServer))
   \<and> urlMatches (exampleRequest ''/a.js'') ''/a.js''
   \<and> fst (handle ''/srv/app'' (ExposedFileMiddleware ''/srv/app/public'' ''a.js'') rejectingServer
        Map.empty (exampleRequest ''/a.js'')) =
       [TransformRequest ''/srv/app/public/a.js'', Throw ''failed'']
   \<and> length (bodies (fst (handle ''/srv/app'' (ExposedFileMiddleware ''/srv/app/public'' ''a.js'')
        rejectingServer Map.empty (exampleRequest ''/a.js'')))) \<noteq> 1"
  by code_simp

text \<open>
  C7, as amended. Take any middleware that \<^verbatim>\<open>configureServer\<close> registers, with the route
  it is registered under, and any request. If the request's \<^verbatim>\<open>originalUrl\<close> is missing or
  does not start with the route, the middleware calls \<^verbatim>\<open>next\<close> once and does nothing
  else: no header, no body, no host call, the entry cache as it was. If it starts with the
  route, the middleware never calls \<^verbatim>\<open>next\<close>; it sets one header and ends the response
  once, unless the host call that it awaits is rejected, and then it sets no header and
  sends no body. What a middleware writes after its \<^verbatim>\<open>await\<close> does not depend on what
  other requests have done to the cache in between.
\<close>

theorem C7_pass_through_or_one_response:
  assumes "(route, mw) \<in> set (routes (configureServer g options server))"
  shows "(\<not> urlMatches req route \<longrightarrow>
            call mw server' entryCache req = ([Next], None)
            \<and> handle dirname mw server' entryCache req = ([Next], entryCache)
            \<and> nextCalls (fst (handle dirname mw server' entryCache req)) = 1
            \<and> headers (fst (handle dirname mw server' entryCache req)) = []
            \<and> bodies (fst (handle dirname mw server' entryCache req)) = [])
       \<and> (urlMatches req route \<longrightarrow>
            nextCalls (fst (handle dirname mw server' entryCache req)) = 0
            \<and> (if throwing (snd (call mw server' entryCache req))
               then headers (fst (handle dirname mw server' entryCache req)) = []
                    \<and> bodies (fst (handle dirname mw server' entryCache req)) = []
               else length (headers (fst (handle dirname mw server' entryCache req))) = 1
                    \<and> length (bodies (fst (handle dirname mw server' entryCache req))) = 1))
       \<and> (snd (call mw server' entryCache req) = Some suspended \<longrightarrow>
            fst (handle dirname mw server' entryCache req) =
              fst (call mw server' entryCache req) @ fst (resume dirname suspended later))"
proof -
  have after: "snd (call mw server' entryCache req) = Some suspended \<longrightarrow>
      fst (handle dirname mw server' entryCache req) =
        fst (call mw server' entryCache req) @ fst (resume dirname suspended later)"
    using resume_effects [of dirname suspended entryCache later]
    by (auto simp: handle_def split: prod.splits)
  from routes_shape [OF assms] consider
    (exposed) folder path where "mw = ExposedFileMiddleware folder path" "route = ''/'' @ path"
  | (entry) name inp where "mw = EntryMiddleware name inp" "route = ''/'' @ name"
    by blast
  then have "(\<not> urlMatches req route \<longrightarrow>
            call mw server' entryCache req = ([Next], None)
            \<and> handle dirname mw server' entryCache req = ([Next], entryCache)
            \<and> nextCalls (fst (handle dirname mw server' entryCache req)) = 1
            \<and> headers (fst (handle dirname mw server' entryCache req)) = []
            \<and> bodies (fst (handle dirname mw server' entryCache req)) = [])
       \<and> (urlMatches req route \<longrightarrow>
            nextCalls (fst (handle dirname mw server' entryCache req)) = 0
            \<and> (if throwing (snd (call mw server' entryCache req))
               then headers (fst (handle dirname mw server' entryCache req)) = []
                    \<and> bodies (fst (handle dirname mw server' entryCache req)) = []
               else length (headers (fst (handle dirname mw server' entryCache req))) = 1
                    \<and> length (bodies (fst (handle dirname mw server' entryCache req))) = 1))"
  proof cases
    case exposed
    show ?thesis
      by (cases "transformRequest server' (folder @ ''/'' @ path)")
        (simp_all add: exposed handle_def exposedFileMiddleware_def)
  next
    case entry
    show ?thesis
    proof (cases "entryCache name")
      case (Some contents)
      then show ?thesis
        by (simp add: entry handle_def entryMiddleware_def)
    next
      case None
      show ?thesis
      proof (cases "getModuleByUrl server' inp")
        case (Thrown err)
        then show ?thesis
          using None by (simp add: entry handle_def entryMiddleware_def)
      next
        case (Fulfilled module)
        then show ?thesis
          using None by (simp add: entry handle_def entryMiddleware_def Let_def)
      qed
    qed
  qed
  then show ?thesis using after by blast
qed

theorem C7_witness:
  "handle ''/srv/app'' (EntryMiddleware ''main'' ''src/main.ts'') exampleServer Map.empty
       (exampleRequest ''/other'') = ([Next], Map.empty)
   \<and> length (bodies (fst (handle ''/srv/app'' (EntryMiddleware ''main'' ''src/main.ts'')
         exampleServer Map.empty (exampleRequest ''/main'')))) = 1
   \<and> nextCalls (fst (handle ''/srv/app'' (EntryMiddleware ''main'' ''src/main.ts'')
         exampleServer Map.empty (exampleRequest ''/main''))) = 0
   \<and> bodies (fst (handle ''/srv/app'' (EntryMiddleware ''main'' ''src/main.ts'')
         rejectingServer Map.empty (exampleRequest ''/main''))) = []"
proof -
  have r: "(''/main'', EntryMiddleware ''main'' ''src/main.ts'')
      \<in> set (routes (configureServer exampleGlob exampleOptions exampleServer))"
    by code_simp
  have no: "\<not> urlMatches (exampleRequest ''/other'') ''/main''"
    by (simp add: urlMatches_def exampleRequest_def startsWith_def)
  have yes: "urlMatches (exampleRequest ''/main'') ''/main''"
    by (simp add: urlMatches_def exampleRequest_def startsWith_def)
  have fine: "\<not> throwing (snd (call (EntryMiddleware ''main'' ''src/main.ts'') exampleServer
      Map.empty (exampleRequest ''/main'')))"
    using yes by (simp add: entryMiddleware_def exampleServer_def)
  have thrown: "throwing (snd (call (EntryMiddleware ''main'' ''src/main.ts'') rejectingServer
      Map.empty (exampleRequest ''/main'')))"
    using yes by (simp add: entryMiddleware_def rejectingServer_def)
  show ?thesis
    using C7_pass_through_or_one_response [OF r, of "exampleRequest ''/other''" exampleServer
        Map.empty "''/srv/app''"]
      C7_pass_through_or_one_response [OF r, of "exampleRequest ''/main''" exampleServer
        Map.empty "''/srv/app''"]
      C7_pass_through_or_one_response [OF r, of "exampleRequest ''/main''" rejectingServer
        Map.empty "''/srv/app''"]
      no yes fine thrown
    by simp
qed

text \<open>
  C8. A warm-up request is issued for the input of every routed entry, in the order of the
  entries. A rejected warm-up is printed with \<^verbatim>\<open>console.error\<close> under the entry's name
  and goes no further: no rejection is left without a handler. Whatever the warm-up
  requests do, the same middlewares are registered under the same routes, so that each of
  them answers a request as it would have otherwise.
\<close>

theorem C8_warmup_failures_are_swallowed:
  "warmedUp (configureServer g options server) = map snd (entries (input server))
   \<and> entryRoutes (configureServer g options server) =
       map (\<lambda>(name, inp). (''/'' @ name, EntryMiddleware name inp)) (entries (input server))
   \<and> errors (configureServer g options server) =
       concat (map (\<lambda>(name, inp). case warmupRequest server inp of
                                      Resolved \<Rightarrow> [] | Rejected err \<Rightarrow> [(name, err)])
                 (entries (input server)))
   \<and> unhandled (configureServer g options server) = []
   \<and> routes (configureServer g options (server\<lparr>warmupRequest := w\<rparr>)) =
       routes (configureServer g options server)
   \<and> map (\<lambda>(route, mw). handle dirname mw server' entryCache req)
         (routes (configureServer g options (server\<lparr>warmupRequest := w\<rparr>))) =
       map (\<lambda>(route, mw). handle dirname mw server' entryCache req)
         (routes (configureServer g options server))"
proof -
  have w: "warmedUp (configureServer g options server) = map snd (entries (input server))"
    by (simp add: configureServer_def useEntries_warmedUp useExposedFolders_rest)
  have e: "errors (configureServer g options server) =
       concat (map (\<lambda>(name, inp). case warmupRequest server inp of
                                      Resolved \<Rightarrow> [] | Rejected err \<Rightarrow> [(name, err)])
                 (entries (input server)))"
    by (simp add: configureServer_def useEntries_errors useExposedFolders_rest)
  have u: "unhandled (configureServer g options server) = []"
    by (simp add: configureServer_def useEntries_unhandled useExposedFolders_rest)
  have r: "routes (configureServer g options (server\<lparr>warmupRequest := w\<rparr>)) =
       routes (configureServer g options server)"
    by (simp add: configureServer_routes)
  show ?thesis
    using w e u r configureServer_entryRoutes [of g options server] by simp
qed

text \<open>
  C9. No middleware removes a name from the entry cache: the names cached before a request
  are cached after it, and so after any sequence of requests, and the names cached at some
  point of a sequence are still cached at every later point. A request that finds its
  entry in the cache leaves the cache as it is. The same holds where requests overlap:
  whatever arrives and whatever continues, in any order, the cached names stay.
\<close>

theorem C9_entry_cache_only_grows:
  "dom entryCache \<subseteq> dom (snd (handle dirname mw server entryCache req))
   \<and> dom entryCache \<subseteq> dom (snd (serveAll dirname entryCache reqs))
   \<and> dom (snd (serveAll dirname entryCache reqs))
       \<subseteq> dom (snd (serveAll dirname entryCache (reqs @ rest)))
   \<and> snd (handle dirname (EntryMiddleware name inp) server (entryCache(name \<mapsto> contents)) req)
       = entryCache(name \<mapsto> contents)
   \<and> dom (cached r) \<subseteq> dom (cached (run dirname r actions))
   \<and> dom (cached (run dirname r actions)) \<subseteq> dom (cached (run dirname r (actions @ later)))"
proof -
  have one: "dom entryCache \<subseteq> dom (snd (handle dirname mw server entryCache req))"
    by (rule map_le_implies_dom_le [OF handle_cache_le])
  have many: "dom entryCache \<subseteq> dom (snd (serveAll dirname entryCache reqs))"
    by (rule map_le_implies_dom_le [OF serveAll_cache_le])
  have after: "dom (snd (serveAll dirname entryCache reqs))
       \<subseteq> dom (snd (serveAll dirname entryCache (reqs @ rest)))"
    unfolding serveAll_append by (rule map_le_implies_dom_le [OF serveAll_cache_le])
  have hit: "snd (handle dirname (EntryMiddleware name inp) server (entryCache(name \<mapsto> contents)) req)
       = entryCache(name \<mapsto> contents)"
    by (simp add: handle_def entryMiddleware_def)
  have overlapping: "dom (cached r) \<subseteq> dom (cached (run dirname r actions))"
    by (rule run_dom)
  have overlapping_after:
    "dom (cached (run dirname r actions)) \<subseteq> dom (cached (run dirname r (actions @ later)))"
    unfolding run_append by (rule run_dom)
  show ?thesis using one many after hit overlapping overlapping_after by blast
qed

text \<open>
  C10. When the module graph knows the module of an entry that is not served as a style
  sheet bundle, and the module's transformed code is the empty string, a matching request
  is answered with an empty body as JavaScript and nothing is put into the entry cache. So
  of any number of such requests in a row, against the same host, each one repeats the
  module-graph lookup and none is served from the cache.
\<close>

theorem C10_empty_code_is_never_cached:
  assumes "urlMatches req (''/'' @ name)"
    and "entryCache name = None"
    and "getModuleByUrl server inp = Fulfilled (Some m)"
    and "\<not> (startsWith inp ''virtual:'' \<and> isCssOnly (importedFiles dirname (Some m)))"
    and "transformResult m = Some t"
    and "code t = []"
  shows "serveAll dirname entryCache (replicate n (EntryMiddleware name inp, server, req)) =
           (replicate n [GetModuleByUrl inp,
                         SetHeader ''Content-Type'' ''application/javascript'',
                         End []],
            entryCache)"
proof -
  have "handle dirname (EntryMiddleware name inp) server entryCache req =
      ([GetModuleByUrl inp, SetHeader ''Content-Type'' ''application/javascript'', End []],
       entryCache)"
    using assms entry_code [of req name entryCache server inp "Some m" dirname]
    by (simp add: transformResultOf_def codeOrEmpty_def hasCode_def)
  then show ?thesis by (rule serveAll_replicate_fixed)
qed

theorem C10_witness:
  "serveAll ''/srv/app'' Map.empty
     (replicate 3 (EntryMiddleware ''empty'' ''src/empty.ts'', exampleServer, exampleRequest ''/empty'')) =
   (replicate 3 [GetModuleByUrl ''src/empty.ts'',
                 SetHeader ''Content-Type'' ''application/javascript'',
                 End []],
    Map.empty)"
proof -
  have 1: "urlMatches (exampleRequest ''/empty'') (''/'' @ ''empty'')"
    by (simp add: urlMatches_def exampleRequest_def startsWith_def)
  have 2: "\<not> (startsWith ''src/empty.ts'' ''virtual:'' \<and>
      isCssOnly (importedFiles ''/srv/app'' (Some \<lparr>transformResult = Some \<lparr>code = []\<rparr>, importedModules = []\<rparr>)))"
    by (simp add: startsWith_def)
  have 3: "getModuleByUrl exampleServer ''src/empty.ts'' =
      Fulfilled (Some \<lparr>transformResult = Some \<lparr>code = []\<rparr>, importedModules = []\<rparr>)"
    by (simp add: exampleServer_def exampleModules_def)
  show ?thesis
    using C10_empty_code_is_never_cached [OF 1 _ 3 2, of Map.empty "\<lparr>code = []\<rparr>" 3]
    by simp
qed

end
